theory Spec2Isabelle
  imports Main "HOL-Library.AList"
begin

section \<open>Python values and exceptions\<close>

text \<open>
  The module \<^verbatim>\<open>shop/cascade/plugin_base.py\<close> is glue code over Django and django CMS.
  Exceptions are values of the type \<open>exn\<close>; a call that may raise returns \<open>exn + 'a\<close>
  with \<open>Inl\<close> for the raised exception. \<open>FrameworkError\<close> stands for any exception
  raised inside framework code that this module neither raises nor catches by name.
\<close>

datatype exn =
    KeyError string
  | AttributeError string
  | TypeError string
  | ImproperlyConfigured string
  | DoesNotExist
  | FrameworkError string

text \<open>
  The values found in a glossary, in form data and in cleaned data. A dictionary with
  string keys is an association list read through \<open>map_of\<close>. \<open>PInstance label pk url\<close>
  is a model instance: the label of its model, its primary key and what its method
  \<^verbatim>\<open>get_absolute_url()\<close> gives (a value, or the exception it raises).
\<close>

datatype pyval =
    PNone
  | PBool bool
  | PInt int
  | PStr string
  | PList "pyval list"
  | PDict "(string \<times> pyval) list"
  | PInstance string pyval "exn + pyval"

text \<open>
  Truth value of an object in a boolean context. A Django model instance defines neither
  \<^verbatim>\<open>__bool__\<close> nor \<^verbatim>\<open>__len__\<close>, so it is true.
\<close>

fun truthy :: "pyval \<Rightarrow> bool" where
  "truthy PNone = False"
| "truthy (PBool b) = b"
| "truthy (PInt i) = (i \<noteq> 0)"
| "truthy (PStr s) = (s \<noteq> [])"
| "truthy (PList xs) = (xs \<noteq> [])"
| "truthy (PDict d) = (d \<noteq> [])"
| "truthy (PInstance m k u) = True"

text \<open>\<^verbatim>\<open>d.get(key)\<close> on a dictionary: the value, or \<^verbatim>\<open>None\<close> when the key is absent.\<close>

definition dict_get :: "(string \<times> pyval) list \<Rightarrow> string \<Rightarrow> pyval" where
  "dict_get d k = (case map_of d k of None \<Rightarrow> PNone | Some v \<Rightarrow> v)"

text \<open>\<^verbatim>\<open>s.split(c)\<close> with an explicit separator: empty fields are kept.\<close>

fun split_str :: "char \<Rightarrow> string \<Rightarrow> string list" where
  "split_str c [] = [[]]"
| "split_str c (x # xs) =
     (if x = c then [] # split_str c xs
      else (case split_str c xs of
              [] \<Rightarrow> [[x]]
            | w # ws \<Rightarrow> (x # w) # ws))"

section \<open>Plugin classes and registration\<close>

text \<open>
  A request carries the attribute \<^verbatim>\<open>_plugin_order\<close> once a dialog plugin has been
  rendered for it; \<open>None\<close> is the attribute being absent.
\<close>

record request =
  plugin_order :: "int option"

text \<open>
  A plugin class: its \<^verbatim>\<open>__name__\<close>, the names of its proper ancestors, and what attribute
  lookup on the class finds for \<^verbatim>\<open>form_class\<close> and \<^verbatim>\<open>template_leaf_name\<close> and for the
  method \<^verbatim>\<open>get_form_data\<close> (\<open>None\<close>: no attribute \<^verbatim>\<open>form_class\<close>). Classes are
  identified by name. \<^verbatim>\<open>template_leaf_name\<close> is set by every concrete dialog plugin
  and \<^verbatim>\<open>get_form_data\<close> returns a dictionary, as its docstring requires.
\<close>

record plugin_class =
  cls_name :: string
  ancestors :: "string list"
  form_class :: "pyval option"
  template_leaf_name :: string
  get_form_data :: "request \<Rightarrow> (string \<rightharpoonup> pyval)"

definition issubclass :: "plugin_class \<Rightarrow> plugin_class \<Rightarrow> bool" where
  "issubclass plugin cls \<longleftrightarrow>
     cls_name plugin = cls_name cls \<or> cls_name cls \<in> set (ancestors plugin)"

text \<open>\<^verbatim>\<open>DialogFormPluginBase.get_form_class\<close>: \<^verbatim>\<open>getattr(cls, 'form_class', None)\<close>.\<close>

definition get_form_class :: "plugin_class \<Rightarrow> pyval" where
  "get_form_class cls = (case form_class cls of None \<Rightarrow> PNone | Some v \<Rightarrow> v)"

text \<open>
  \<^verbatim>\<open>DialogFormPluginBase.register_plugin\<close>. The plugin pool belongs to the CMS: its
  operation \<^verbatim>\<open>plugin_pool.register_plugin\<close> is the parameter \<open>pool_register\<close>, which takes
  the pool and returns the outcome with the pool it leaves. The classmethod returns the
  outcome and the pool.
\<close>

definition register_plugin ::
  "(plugin_class \<Rightarrow> 'pool \<Rightarrow> (exn + unit) \<times> 'pool) \<Rightarrow> plugin_class \<Rightarrow> plugin_class \<Rightarrow> 'pool
     \<Rightarrow> (exn + unit) \<times> 'pool" where
  "register_plugin pool_register cls plugin pool =
     (if \<not> issubclass plugin cls then
        (Inl (ImproperlyConfigured
           (''Can not register plugin class `'' @ cls_name plugin @
            ''`, since is does not inherit from `'' @ cls_name cls @ ''`.'')), pool)
      else if get_form_class plugin = PNone then
        (Inl (ImproperlyConfigured
           (''Can not register plugin class `'' @ cls_name plugin @
            ''`, since is does not define a `form_class`.'')), pool)
      else pool_register plugin pool)"

text \<open>
  The class \<^verbatim>\<open>DialogFormPluginBase\<close> itself: it defines no \<^verbatim>\<open>form_class\<close>, and its
  \<^verbatim>\<open>get_form_data\<close> returns the empty dictionary. It sets no \<^verbatim>\<open>template_leaf_name\<close>
  either; the empty string stands for that here and is not used below.
\<close>

definition DialogFormPluginBase :: plugin_class where
  "DialogFormPluginBase =
     \<lparr>cls_name = ''DialogFormPluginBase'',
      ancestors = [''ShopPluginBase'', ''CascadePluginBase''],
      form_class = None,
      template_leaf_name = [],
      get_form_data = (\<lambda>request. Map.empty)\<rparr>"

section \<open>Link plugins\<close>

text \<open>
  A plugin instance (the model object handed to the classmethods as \<^verbatim>\<open>obj\<close> and to
  \<^verbatim>\<open>render\<close> as \<^verbatim>\<open>instance\<close>): its \<^verbatim>\<open>id\<close>, its glossary, and the attribute
  \<^verbatim>\<open>_link_model\<close>, which only \<^verbatim>\<open>get_link\<close> sets. \<open>link_model obj = None\<close> is
  \<^verbatim>\<open>not hasattr(obj, '_link_model')\<close>; \<open>Some PNone\<close> is the attribute holding \<^verbatim>\<open>None\<close>.
\<close>

record plugin_instance =
  inst_id :: pyval
  glossary :: "string \<rightharpoonup> pyval"
  link_model :: "pyval option"

text \<open>
  What \<^verbatim>\<open>django.db.models.get_model\<close> returns: \<^verbatim>\<open>None\<close> (older Django, unknown model)
  or a model class, given by its \<^verbatim>\<open>objects.get(pk=...)\<close>, which returns the instance
  or raises (\<open>DoesNotExist\<close> when there is no such row). \<^verbatim>\<open>get_model\<close> itself is a
  parameter of the functions below and may raise.
\<close>

datatype model_cls = NoModel | Model "pyval \<Rightarrow> exn + pyval"

text \<open>\<^verbatim>\<open>m.get_absolute_url()\<close>: only a model instance has the method.\<close>

fun get_absolute_url :: "pyval \<Rightarrow> exn + pyval" where
  "get_absolute_url (PInstance label pk url) = url"
| "get_absolute_url v = Inl (AttributeError ''get_absolute_url'')"

text \<open>
  Lines 54 to 58 of \<^verbatim>\<open>ShopLinkPluginBase.get_link\<close>, run when the instance has no
  \<^verbatim>\<open>_link_model\<close>: resolve the model class, fetch the object by primary key and store it
  (or \<^verbatim>\<open>None\<close> on \<open>DoesNotExist\<close>) on the instance. The natural number counts the calls
  of \<^verbatim>\<open>Model.objects.get\<close>.
\<close>

definition fetch_link_model ::
  "(string list \<Rightarrow> exn + model_cls) \<Rightarrow> (string \<times> pyval) list \<Rightarrow> plugin_instance
     \<Rightarrow> (exn + plugin_instance) \<times> nat" where
  "fetch_link_model get_model link obj =
     (case map_of link ''model'' of
        None \<Rightarrow> (Inl (KeyError ''model''), 0)
      | Some (PStr s) \<Rightarrow>
          (case get_model (split_str CHR ''.'' s) of
             Inl e \<Rightarrow> (Inl e, 0)
           | Inr NoModel \<Rightarrow> (Inl (AttributeError ''objects''), 0)
           | Inr (Model objects_get) \<Rightarrow>
               (case map_of link ''pk'' of
                  None \<Rightarrow> (Inl (KeyError ''pk''), 0)
                | Some pk \<Rightarrow>
                    (case objects_get pk of
                       Inl DoesNotExist \<Rightarrow> (Inr (obj\<lparr>link_model := Some PNone\<rparr>), 1)
                     | Inl e \<Rightarrow> (Inl e, 1)
                     | Inr m \<Rightarrow> (Inr (obj\<lparr>link_model := Some m\<rparr>), 1))))
      | Some v \<Rightarrow> (Inl (AttributeError ''split''), 0))"

text \<open>
  \<^verbatim>\<open>ShopLinkPluginBase.get_link\<close>. The result is the outcome (the returned value, \<open>PNone\<close>
  where the source falls off its end), the instance as the call leaves it, and the number
  of database lookups the call made.
\<close>

definition get_link ::
  "(string list \<Rightarrow> exn + model_cls) \<Rightarrow> plugin_instance
     \<Rightarrow> (exn + pyval) \<times> plugin_instance \<times> nat" where
  "get_link get_model obj =
     (case (case glossary obj ''link'' of None \<Rightarrow> PDict [] | Some v \<Rightarrow> v) of
        PDict link \<Rightarrow>
          if dict_get link ''type'' = PStr ''cmspage'' then
            if map_of link ''model'' \<noteq> None \<and> map_of link ''pk'' \<noteq> None then
              (case (case link_model obj of
                       None \<Rightarrow> fetch_link_model get_model link obj
                     | Some m \<Rightarrow> (Inr obj, 0)) of
                 (Inl e, n) \<Rightarrow> (Inl e, obj, n)
               | (Inr obj', n) \<Rightarrow>
                   (case link_model obj' of
                      None \<Rightarrow> (Inl (AttributeError ''_link_model''), obj', n)
                    | Some m \<Rightarrow>
                        if truthy m then (get_absolute_url m, obj', n)
                        else (Inr PNone, obj', n)))
            else (Inr PNone, obj, 0)
          else (Inr (dict_get link ''type''), obj, 0)
      | v \<Rightarrow> (Inl (AttributeError ''get''), obj, 0))"

text \<open>
  \<^verbatim>\<open>ShopButtonPluginBase.get_identifier\<close>; \<^verbatim>\<open>mark_safe\<close> is Django's and a parameter.
  The instance is returned as the call leaves it.
\<close>

definition get_identifier ::
  "(pyval \<Rightarrow> 's) \<Rightarrow> plugin_instance \<Rightarrow> 's \<times> plugin_instance" where
  "get_identifier mark_safe obj =
     (mark_safe (case glossary obj ''link_content'' of None \<Rightarrow> PStr [] | Some v \<Rightarrow> v), obj)"

section \<open>The catalog link form\<close>

record product_model =
  app_label :: string
  model_name :: string

record catalog_link_form =
  ProductModel :: product_model
  cleaned_data :: "string \<rightharpoonup> pyval"

text \<open>\<^verbatim>\<open>product.pk\<close>: only a model instance has the attribute.\<close>

fun getattr_pk :: "pyval \<Rightarrow> exn + pyval" where
  "getattr_pk (PInstance label pk url) = Inr pk"
| "getattr_pk v = Inl (AttributeError ''pk'')"

text \<open>
  \<^verbatim>\<open>CatalogLinkForm.clean_product\<close>. The expression \<^verbatim>\<open>p and p.pk or None\<close> is evaluated
  by truth value: \<^verbatim>\<open>p.pk\<close> is read when \<^verbatim>\<open>p\<close> is true, and \<^verbatim>\<open>None\<close> is taken when the
  left operand of \<^verbatim>\<open>or\<close> is false.
\<close>

definition clean_product :: "catalog_link_form \<Rightarrow> exn + catalog_link_form" where
  "clean_product self =
     (if (case cleaned_data self ''link_type'' of None \<Rightarrow> PNone | Some v \<Rightarrow> v) = PStr ''product''
      then
        (case cleaned_data self ''product'' of
           None \<Rightarrow> Inl (KeyError ''product'')
         | Some product \<Rightarrow>
             (case (if truthy product then getattr_pk product else Inr product) of
                Inl e \<Rightarrow> Inl e
              | Inr a \<Rightarrow>
                  Inr (self\<lparr>cleaned_data := (cleaned_data self)(''link_data'' \<mapsto>
                    PDict [(''type'', PStr ''product''),
                           (''model'', PStr (app_label (ProductModel self) @ ''.'' @
                                             model_name (ProductModel self))),
                           (''pk'', if truthy a then a else PNone)])\<rparr>)))
      else Inr self)"

text \<open>
  \<^verbatim>\<open>CatalogLinkForm.set_initial_product\<close>: the body of the \<^verbatim>\<open>try\<close> first, then the
  handler for \<^verbatim>\<open>KeyError\<close> and \<^verbatim>\<open>ObjectDoesNotExist\<close>. The result is the dictionary
  \<^verbatim>\<open>initial\<close> as the call leaves it, or the exception that escapes.
\<close>

definition set_initial_product_try ::
  "(string list \<Rightarrow> exn + model_cls) \<Rightarrow> (string \<rightharpoonup> pyval) \<Rightarrow> exn + (string \<rightharpoonup> pyval)" where
  "set_initial_product_try get_model initial =
     (case initial ''link'' of
        None \<Rightarrow> Inl (KeyError ''link'')
      | Some (PDict link) \<Rightarrow>
          (case map_of link ''model'' of
             None \<Rightarrow> Inl (KeyError ''model'')
           | Some (PStr s) \<Rightarrow>
               (case get_model (split_str CHR ''.'' s) of
                  Inl e \<Rightarrow> Inl e
                | Inr NoModel \<Rightarrow> Inl (AttributeError ''objects'')
                | Inr (Model objects_get) \<Rightarrow>
                    (case map_of link ''pk'' of
                       None \<Rightarrow> Inl (KeyError ''pk'')
                     | Some pk \<Rightarrow>
                         (case objects_get pk of
                            Inl e \<Rightarrow> Inl e
                          | Inr m \<Rightarrow> Inr (initial(''product'' \<mapsto> m)))))
           | Some v \<Rightarrow> Inl (AttributeError ''split''))
      | Some v \<Rightarrow> Inl (TypeError ''link''))"

definition set_initial_product ::
  "(string list \<Rightarrow> exn + model_cls) \<Rightarrow> (string \<rightharpoonup> pyval) \<Rightarrow> exn + (string \<rightharpoonup> pyval)" where
  "set_initial_product get_model initial =
     (case set_initial_product_try get_model initial of
        Inl (KeyError k) \<Rightarrow> Inr initial
      | Inl DoesNotExist \<Rightarrow> Inr initial
      | Inl e \<Rightarrow> Inl e
      | Inr initial' \<Rightarrow> Inr initial')"

section \<open>Dialog form plugins\<close>

text \<open>
  A form object has the attribute \<^verbatim>\<open>form_name\<close>. A form class is given by its constructor,
  from keyword arguments to a form (or an exception). A plugin object carries its class and
  the attribute \<^verbatim>\<open>FormClass\<close> set by \<^verbatim>\<open>__init__\<close>.
\<close>

record bound_form =
  form_name :: string

record 'f dialog_plugin =
  klass :: plugin_class
  FormClass :: "(string \<rightharpoonup> pyval) \<Rightarrow> exn + 'f"

text \<open>
  \<^verbatim>\<open>DialogFormPluginBase.__init__\<close>, after the initialiser of the superclass;
  \<^verbatim>\<open>import_by_path\<close> is Django's and a parameter.
\<close>

definition dialog_plugin_init ::
  "(pyval \<Rightarrow> exn + ((string \<rightharpoonup> pyval) \<Rightarrow> exn + 'f)) \<Rightarrow> plugin_class \<Rightarrow> exn + 'f dialog_plugin" where
  "dialog_plugin_init import_by_path cls =
     (case import_by_path (get_form_class cls) of
        Inl e \<Rightarrow> Inl e
      | Inr c \<Rightarrow> Inr \<lparr>klass = cls, FormClass = c\<rparr>)"

text \<open>
  \<^verbatim>\<open>DialogFormPluginBase.get_render_template\<close>; \<^verbatim>\<open>select_template\<close> is Django's and
  \<^verbatim>\<open>shop_settings.APP_LABEL\<close> a setting, both parameters.
\<close>

definition get_render_template ::
  "(string list \<Rightarrow> exn + 't) \<Rightarrow> string \<Rightarrow> 'f dialog_plugin \<Rightarrow> 'c \<Rightarrow> 'i \<Rightarrow> 'p \<Rightarrow> exn + 't" where
  "get_render_template select_template APP_LABEL self context instance placeholder =
     select_template
       [APP_LABEL @ ''/checkout/'' @ template_leaf_name (klass self),
        ''shop/checkout/'' @ template_leaf_name (klass self)]"

text \<open>
  A template context maps names to values; the entry \<open>CRequest\<close> is a reference to the
  request object, which is kept beside the context so that a change of its attribute is
  one change whatever the context holds afterwards.
\<close>

datatype 'f ctxval = CRequest | CForm 'f | CVal pyval

text \<open>
  \<^verbatim>\<open>DialogFormPluginBase.render\<close>. The state is the request object and the context; the
  \<^verbatim>\<open>render\<close> of the superclass is the parameter \<open>super_render\<close>. An entry under
  \<^verbatim>\<open>'request'\<close> that is not the request object is outside what Django's context
  processor provides and is reported as an error.
\<close>

definition render ::
  "'a bound_form_scheme dialog_plugin
   \<Rightarrow> (request \<times> (string \<rightharpoonup> 'a bound_form_scheme ctxval) \<Rightarrow> plugin_instance \<Rightarrow> 'p
        \<Rightarrow> (exn + 'r) \<times> request \<times> (string \<rightharpoonup> 'a bound_form_scheme ctxval))
   \<Rightarrow> request \<times> (string \<rightharpoonup> 'a bound_form_scheme ctxval) \<Rightarrow> plugin_instance \<Rightarrow> 'p
   \<Rightarrow> (exn + 'r) \<times> request \<times> (string \<rightharpoonup> 'a bound_form_scheme ctxval)" where
  "render self super_render st instance placeholder =
     (case st of (request, context) \<Rightarrow>
        (case context ''request'' of
           None \<Rightarrow> (Inl (KeyError ''request''), request, context)
         | Some CRequest \<Rightarrow>
             (let form_data = get_form_data (klass self) request;
                  order = (case plugin_order request of None \<Rightarrow> 0 | Some n \<Rightarrow> n) + 1;
                  request' = request\<lparr>plugin_order := Some order\<rparr>;
                  initial = (case form_data ''initial'' of Some (PDict d) \<Rightarrow> d | _ \<Rightarrow> []);
                  initial' = AList.update ''plugin_order'' (PInt order)
                               (AList.update ''plugin_id'' (inst_id instance) initial);
                  form_data' = form_data(''initial'' \<mapsto> PDict initial')
              in (case FormClass self form_data' of
                    Inl e \<Rightarrow> (Inl e, request', context)
                  | Inr bound_form \<Rightarrow>
                      super_render
                        (request', context(form_name bound_form \<mapsto> CForm bound_form))
                        instance placeholder))
         | Some v \<Rightarrow> (Inl (AttributeError ''_plugin_order''), request, context)))"

section \<open>Example data\<close>

text \<open>Concrete classes, instances and framework behaviour used to run the definitions.\<close>

definition CustomerFormPlugin :: plugin_class where
  "CustomerFormPlugin =
     \<lparr>cls_name = ''CustomerFormPlugin'',
      ancestors = [''DialogFormPluginBase'', ''ShopPluginBase'', ''CascadePluginBase''],
      form_class = Some (PStr ''shop.forms.checkout.CustomerForm''),
      template_leaf_name = ''customer.html'',
      get_form_data = (\<lambda>request.
        [''initial'' \<mapsto> PDict [(''plugin_id'', PInt 999), (''email'', PStr ''a@b.c'')]])\<rparr>"

definition about_page :: pyval where
  "about_page = PInstance ''cms.Page'' (PInt 7) (Inr (PStr ''/about/''))"

definition cms_pages :: "pyval \<Rightarrow> exn + pyval" where
  "cms_pages pk = (if pk = PInt 7 then Inr about_page else Inl DoesNotExist)"

definition no_rows :: "pyval \<Rightarrow> exn + pyval" where
  "no_rows pk = Inl DoesNotExist"

text \<open>A model registry knowing one model; any other path raises \<^verbatim>\<open>LookupError\<close>.\<close>

definition get_model_in ::
  "string list \<Rightarrow> (pyval \<Rightarrow> exn + pyval) \<Rightarrow> string list \<Rightarrow> exn + model_cls" where
  "get_model_in path rows parts =
     (if parts = path then Inr (Model rows) else Inl (FrameworkError ''LookupError''))"

definition page_link :: "(string \<times> pyval) list" where
  "page_link = [(''type'', PStr ''cmspage''), (''model'', PStr ''cms.Page''), (''pk'', PInt 7)]"

definition link_obj :: plugin_instance where
  "link_obj =
     \<lparr>inst_id = PInt 1, glossary = [''link'' \<mapsto> PDict page_link], link_model = None\<rparr>"

definition action_obj :: plugin_instance where
  "action_obj =
     \<lparr>inst_id = PInt 2,
      glossary = [''link'' \<mapsto> PDict [(''type'', PStr ''RELOAD_PAGE'')],
                  ''link_content'' \<mapsto> PStr ''Reload''],
      link_model = None\<rparr>"

definition nopk_obj :: plugin_instance where
  "nopk_obj =
     \<lparr>inst_id = PInt 3,
      glossary = [''link'' \<mapsto> PDict [(''type'', PStr ''cmspage''), (''model'', PStr ''cms.Page'')]],
      link_model = None\<rparr>"

definition product_zero :: pyval where
  "product_zero = PInstance ''myshop.Product'' (PInt 0) (Inr (PStr ''/products/zero/''))"

definition product_three :: pyval where
  "product_three = PInstance ''myshop.Product'' (PInt 3) (Inr (PStr ''/products/three/''))"

definition shop_products :: "pyval \<Rightarrow> exn + pyval" where
  "shop_products pk = (if pk = PInt 3 then Inr product_three else Inl DoesNotExist)"

definition zero_form :: catalog_link_form where
  "zero_form =
     \<lparr>ProductModel = \<lparr>app_label = ''myshop'', model_name = ''Product''\<rparr>,
      cleaned_data = [''link_type'' \<mapsto> PStr ''product'', ''product'' \<mapsto> product_zero]\<rparr>"

definition product_link :: "(string \<times> pyval) list" where
  "product_link =
     [(''type'', PStr ''product''), (''model'', PStr ''myshop.Product''), (''pk'', PInt 3)]"

definition gone_link :: "(string \<times> pyval) list" where
  "gone_link = [(''type'', PStr ''product''), (''model'', PStr ''myshop.Gone'')]"

text \<open>A table whose lookup fails with a database error, not with \<^verbatim>\<open>DoesNotExist\<close>.\<close>

definition failing_rows :: "pyval \<Rightarrow> exn + pyval" where
  "failing_rows pk = Inl (FrameworkError ''OperationalError'')"

text \<open>A form class whose instances keep the keyword arguments they were built from.\<close>

record customer_form = bound_form +
  form_kwargs :: "string \<rightharpoonup> pyval"

definition CustomerForm :: "(string \<rightharpoonup> pyval) \<Rightarrow> exn + customer_form" where
  "CustomerForm kwargs = Inr \<lparr>form_name = ''customer_form'', form_kwargs = kwargs\<rparr>"

definition import_shop_forms ::
  "pyval \<Rightarrow> exn + ((string \<rightharpoonup> pyval) \<Rightarrow> exn + customer_form)" where
  "import_shop_forms path =
     (if path = PStr ''shop.forms.checkout.CustomerForm'' then Inr CustomerForm
      else Inl (ImproperlyConfigured ''no such class''))"

definition customer_plugin :: "customer_form dialog_plugin" where
  "customer_plugin = \<lparr>klass = CustomerFormPlugin, FormClass = CustomerForm\<rparr>"

text \<open>The \<^verbatim>\<open>render\<close> of the CMS plugin base returns the context it was given.\<close>

definition cms_render ::
  "request \<times> (string \<rightharpoonup> customer_form ctxval) \<Rightarrow> plugin_instance \<Rightarrow> unit
     \<Rightarrow> (exn + (string \<rightharpoonup> customer_form ctxval)) \<times> request \<times> (string \<rightharpoonup> customer_form ctxval)" where
  "cms_render st instance placeholder = (Inr (snd st), st)"

text \<open>
  Django's \<^verbatim>\<open>select_template\<close> over a template store: the template of the first name
  that loads, \<^verbatim>\<open>TemplateDoesNotExist\<close> when none does.
\<close>

fun first_template :: "(string \<rightharpoonup> 't) \<Rightarrow> string list \<Rightarrow> exn + 't" where
  "first_template store [] = Inl (FrameworkError ''TemplateDoesNotExist'')"
| "first_template store (n # ns) =
     (case store n of Some t \<Rightarrow> Inr t | None \<Rightarrow> first_template store ns)"

section \<open>Registration\<close>

text \<open>
  C1. \<^verbatim>\<open>register_plugin(P)\<close> on a class \<open>cls\<close> (\<^verbatim>\<open>DialogFormPluginBase\<close> or a subclass
  through which the classmethod is called) hands \<open>P\<close> to the plugin pool exactly when \<open>P\<close>
  is a subclass of \<open>cls\<close> and \<^verbatim>\<open>P.get_form_class()\<close> is not \<^verbatim>\<open>None\<close>. Otherwise it raises
  \<^verbatim>\<open>ImproperlyConfigured\<close> and the pool is the one it was given; the message is the one of
  the subclass check whenever that check fails, whatever the form class. For a pool that
  is the list of registered classes, \<open>P\<close> is added if and only if both conditions hold.
\<close>

theorem register_plugin_pool:
  "register_plugin pool_register cls P pool =
     (if issubclass P cls \<and> get_form_class P \<noteq> PNone then pool_register P pool
      else (Inl (ImproperlyConfigured
              (if \<not> issubclass P cls
               then ''Can not register plugin class `'' @ cls_name P @
                    ''`, since is does not inherit from `'' @ cls_name cls @ ''`.''
               else ''Can not register plugin class `'' @ cls_name P @
                    ''`, since is does not define a `form_class`.'')), pool))
   \<and> (snd (register_plugin (\<lambda>p ps. (Inr (), p # ps)) cls P pool') = P # pool'
        \<longleftrightarrow> issubclass P cls \<and> get_form_class P \<noteq> PNone)"
  by (simp add: register_plugin_def)

theorem register_plugin_pool_witness:
  "register_plugin (\<lambda>p ps. (Inr (), p # ps)) DialogFormPluginBase CustomerFormPlugin [] =
     (Inr (), [CustomerFormPlugin])
   \<and> register_plugin (\<lambda>p ps. (Inr (), p # ps)) DialogFormPluginBase DialogFormPluginBase [] =
     (Inl (ImproperlyConfigured
        ''Can not register plugin class `DialogFormPluginBase`, since is does not define a `form_class`.''), [])
   \<and> fst (register_plugin (\<lambda>p ps. (Inr (), p # ps)) CustomerFormPlugin DialogFormPluginBase []) =
     Inl (ImproperlyConfigured
        ''Can not register plugin class `DialogFormPluginBase`, since is does not inherit from `CustomerFormPlugin`.'')"
  using register_plugin_pool [of "\<lambda>p ps. (Inr (), p # ps)" DialogFormPluginBase CustomerFormPlugin "[]" "[]"]
    register_plugin_pool [of "\<lambda>p ps. (Inr (), p # ps)" DialogFormPluginBase DialogFormPluginBase "[]" "[]"]
    register_plugin_pool [of "\<lambda>p ps. (Inr (), p # ps)" CustomerFormPlugin DialogFormPluginBase "[]" "[]"]
  by (simp add: issubclass_def get_form_class_def CustomerFormPlugin_def DialogFormPluginBase_def)

section \<open>Link resolution\<close>

lemma fetch_link_model_Inr:
  "fetch_link_model get_model link obj = (Inr obj', n) \<Longrightarrow>
     n = 1 \<and> (\<exists>m. obj' = obj\<lparr>link_model := Some m\<rparr>)"
  by (auto simp add: fetch_link_model_def
      split: option.splits pyval.splits sum.splits exn.splits model_cls.splits)

lemma fetch_link_model_Inl:
  "fetch_link_model get_model link obj = (Inl e, n) \<Longrightarrow> n \<le> 1"
  by (auto simp add: fetch_link_model_def
      split: option.splits pyval.splits sum.splits exn.splits model_cls.splits)

lemma get_link_cached:
  "glossary obj ''link'' = Some (PDict link) \<Longrightarrow> dict_get link ''type'' = PStr ''cmspage'' \<Longrightarrow>
   map_of link ''model'' \<noteq> None \<Longrightarrow> map_of link ''pk'' \<noteq> None \<Longrightarrow> link_model obj = Some m \<Longrightarrow>
   get_link get_model obj = (if truthy m then get_absolute_url m else Inr PNone, obj, 0)"
  by (simp add: get_link_def)

lemma get_link_uncached:
  "glossary obj ''link'' = Some (PDict link) \<Longrightarrow> dict_get link ''type'' = PStr ''cmspage'' \<Longrightarrow>
   map_of link ''model'' \<noteq> None \<Longrightarrow> map_of link ''pk'' \<noteq> None \<Longrightarrow> link_model obj = None \<Longrightarrow>
   get_link get_model obj =
     (case fetch_link_model get_model link obj of
        (Inl e, n) \<Rightarrow> (Inl e, obj, n)
      | (Inr obj', n) \<Rightarrow>
          (case link_model obj' of
             None \<Rightarrow> (Inl (AttributeError ''_link_model''), obj', n)
           | Some m \<Rightarrow> if truthy m then (get_absolute_url m, obj', n) else (Inr PNone, obj', n)))"
  by (simp add: get_link_def)

lemma get_link_other:
  "\<not> (\<exists>link. glossary obj ''link'' = Some (PDict link) \<and> dict_get link ''type'' = PStr ''cmspage'' \<and>
        map_of link ''model'' \<noteq> None \<and> map_of link ''pk'' \<noteq> None) \<Longrightarrow>
   snd (get_link get_model obj) = (obj, 0)"
  by (auto simp add: get_link_def dict_get_def split: option.splits pyval.splits)

lemma get_link_returns_twice:
  assumes l: "glossary obj ''link'' = Some (PDict link)" "dict_get link ''type'' = PStr ''cmspage''"
    "map_of link ''model'' \<noteq> None" "map_of link ''pk'' \<noteq> None"
    and r: "get_link get_model obj = (r, obj1, n1)"
  shows "n1 \<le> 1 \<and> glossary obj1 = glossary obj \<and>
         (obj1 = obj \<and> (\<exists>e. r = Inl e) \<and> link_model obj = None
          \<or> (\<exists>m. link_model obj1 = Some m) \<and> (\<forall>gm. get_link gm obj1 = (r, obj1, 0)))"
proof (cases "link_model obj")
  case (Some m)
  from get_link_cached [OF l Some] r show ?thesis
    using get_link_cached [OF l Some] Some by auto
next
  case None
  show ?thesis
  proof (cases "fetch_link_model get_model link obj")
    case (Pair res n)
    show ?thesis
    proof (cases res)
      case (Inl e)
      with Pair r get_link_uncached [OF l None, of get_model]
        fetch_link_model_Inl [of get_model link obj e n]
      show ?thesis using None by auto
    next
      case (Inr obj')
      with Pair fetch_link_model_Inr [of get_model link obj obj' n]
      obtain m where m: "n = 1" "obj' = obj\<lparr>link_model := Some m\<rparr>" by auto
      have l': "glossary obj' ''link'' = Some (PDict link)" using l m by simp
      have c: "link_model obj' = Some m" using m by simp
      from Pair Inr r get_link_uncached [OF l None, of get_model] m
      have "r = (if truthy m then get_absolute_url m else Inr PNone) \<and> obj1 = obj' \<and> n1 = 1"
        by (auto split: if_splits)
      then show ?thesis
        using get_link_cached [OF l' l(2-4) c] c m by auto
    qed
  qed
qed

text \<open>
  C2, as amended. Let the glossary entry \<^verbatim>\<open>'link'\<close> be a dictionary (or absent, which
  reads as the empty dictionary). If its type is \<^verbatim>\<open>'cmspage'\<close>, its \<^verbatim>\<open>'model'\<close> and
  \<^verbatim>\<open>'pk'\<close> reference an existing database object, and the instance has no
  \<^verbatim>\<open>_link_model\<close> yet or has that object there, \<^verbatim>\<open>get_link\<close> gives what the object's
  \<^verbatim>\<open>get_absolute_url()\<close> gives. If the type is anything but \<^verbatim>\<open>'cmspage'\<close>, absent
  included, it returns \<^verbatim>\<open>link.get('type')\<close>, leaves the instance alone and makes no lookup.
\<close>

theorem get_link_resolves:
  "(case glossary obj ''link'' of None \<Rightarrow> PDict [] | Some v \<Rightarrow> v) = PDict link \<Longrightarrow>
   (dict_get link ''type'' = PStr ''cmspage'' \<and>
    map_of link ''model'' = Some (PStr s) \<and> map_of link ''pk'' = Some pk \<and>
    get_model (split_str CHR ''.'' s) = Inr (Model objects_get) \<and>
    objects_get pk = Inr (PInstance label k url) \<and>
    (link_model obj = None \<or> link_model obj = Some (PInstance label k url))
    \<longrightarrow> fst (get_link get_model obj) = get_absolute_url (PInstance label k url))
   \<and> (dict_get link ''type'' \<noteq> PStr ''cmspage''
    \<longrightarrow> get_link get_model obj = (Inr (dict_get link ''type''), obj, 0))"
  by (auto simp add: get_link_def fetch_link_model_def)

theorem get_link_resolves_witness:
  "fst (get_link (get_model_in [''cms'', ''Page''] cms_pages) link_obj) = Inr (PStr ''/about/'')
   \<and> get_link (get_model_in [''cms'', ''Page''] cms_pages) action_obj =
       (Inr (PStr ''RELOAD_PAGE''), action_obj, 0)"
  using get_link_resolves [where obj = link_obj and link = page_link and s = "''cms.Page''"
      and pk = "PInt 7" and get_model = "get_model_in [''cms'', ''Page''] cms_pages"
      and objects_get = cms_pages and label = "''cms.Page''" and k = "PInt 7"
      and url = "Inr (PStr ''/about/'')"]
    get_link_resolves [where obj = action_obj and link = "[(''type'', PStr ''RELOAD_PAGE'')]"
      and get_model = "get_model_in [''cms'', ''Page''] cms_pages"]
  by (simp add: link_obj_def action_obj_def page_link_def dict_get_def get_model_in_def
      cms_pages_def about_page_def)

text \<open>
  C2 as stated fails on an instance that already carries \<^verbatim>\<open>_link_model\<close>: a first call
  made while the page did not exist stores \<^verbatim>\<open>None\<close>; once the page exists, the next call
  on the same instance still returns \<^verbatim>\<open>None\<close>, not the page's URL.
\<close>

theorem get_link_resolves_counterexample:
  "glossary (link_obj\<lparr>link_model := Some PNone\<rparr>) ''link'' = Some (PDict page_link)
   \<and> dict_get page_link ''type'' = PStr ''cmspage''
   \<and> map_of page_link ''model'' = Some (PStr ''cms.Page'')
   \<and> map_of page_link ''pk'' = Some (PInt 7)
   \<and> get_model_in [''cms'', ''Page''] cms_pages (split_str CHR ''.'' ''cms.Page'') = Inr (Model cms_pages)
   \<and> cms_pages (PInt 7) = Inr about_page
   \<and> get_absolute_url about_page = Inr (PStr ''/about/'')
   \<and> fst (snd (get_link (get_model_in [''cms'', ''Page''] no_rows) link_obj))
       = link_obj\<lparr>link_model := Some PNone\<rparr>
   \<and> fst (get_link (get_model_in [''cms'', ''Page''] cms_pages) (link_obj\<lparr>link_model := Some PNone\<rparr>))
       = Inr PNone
   \<and> fst (get_link (get_model_in [''cms'', ''Page''] cms_pages) (link_obj\<lparr>link_model := Some PNone\<rparr>))
       \<noteq> get_absolute_url about_page"
  by (simp add: get_link_def fetch_link_model_def link_obj_def page_link_def dict_get_def
      get_model_in_def cms_pages_def no_rows_def about_page_def)

text \<open>
  C7. Neither classmethod changes the glossary, whatever the outcome of the call, and
  the outcome depends on the instance only through its glossary (and, for \<^verbatim>\<open>get_link\<close>,
  the \<^verbatim>\<open>_link_model\<close> that \<^verbatim>\<open>get_link\<close> itself keeps on the instance).
\<close>

theorem get_link_frame:
  "glossary (fst (snd (get_link get_model obj))) = glossary obj
   \<and> glossary (snd (get_identifier mark_safe obj)) = glossary obj
   \<and> (glossary obj = glossary obj' \<and> link_model obj = link_model obj'
        \<longrightarrow> fst (get_link get_model obj) = fst (get_link get_model obj'))
   \<and> (glossary obj = glossary obj'
        \<longrightarrow> fst (get_identifier mark_safe obj) = fst (get_identifier mark_safe obj'))"
proof (intro conjI impI)
  show "glossary (fst (snd (get_link get_model obj))) = glossary obj"
  proof (cases "\<exists>link. glossary obj ''link'' = Some (PDict link) \<and>
        dict_get link ''type'' = PStr ''cmspage'' \<and>
        map_of link ''model'' \<noteq> None \<and> map_of link ''pk'' \<noteq> None")
    case False
    from get_link_other [OF False, of get_model] show ?thesis by simp
  next
    case True
    then obtain link where l: "glossary obj ''link'' = Some (PDict link)"
      "dict_get link ''type'' = PStr ''cmspage''"
      "map_of link ''model'' \<noteq> None" "map_of link ''pk'' \<noteq> None" by blast
    obtain r obj1 n1 where r: "get_link get_model obj = (r, obj1, n1)"
      by (cases "get_link get_model obj") auto
    from get_link_returns_twice [OF l r] r show ?thesis by simp
  qed
next
  show "glossary (snd (get_identifier mark_safe obj)) = glossary obj"
    by (simp add: get_identifier_def)
next
  assume "glossary obj = glossary obj' \<and> link_model obj = link_model obj'"
  then show "fst (get_link get_model obj) = fst (get_link get_model obj')"
    by (auto simp add: get_link_def fetch_link_model_def
        split: option.splits pyval.splits sum.splits exn.splits model_cls.splits prod.splits)
next
  assume "glossary obj = glossary obj'"
  then show "fst (get_identifier mark_safe obj) = fst (get_identifier mark_safe obj')"
    by (simp add: get_identifier_def)
qed

theorem get_link_frame_witness:
  "glossary (fst (snd (get_link (get_model_in [''cms'', ''Page''] cms_pages) link_obj)))
     = glossary link_obj
   \<and> glossary (snd (get_identifier (\<lambda>v. v) action_obj)) = glossary action_obj
   \<and> fst (get_link (get_model_in [''cms'', ''Page''] cms_pages) link_obj)
       = fst (get_link (get_model_in [''cms'', ''Page''] cms_pages) (link_obj\<lparr>inst_id := PInt 99\<rparr>))
   \<and> fst (get_identifier (\<lambda>v. v) action_obj)
       = fst (get_identifier (\<lambda>v. v) (action_obj\<lparr>inst_id := PInt 99\<rparr>))"
  using get_link_frame [where get_model = "get_model_in [''cms'', ''Page''] cms_pages"
      and obj = link_obj and obj' = "link_obj\<lparr>inst_id := PInt 99\<rparr>" and mark_safe = "\<lambda>v. v"]
    get_link_frame [where get_model = "get_model_in [''cms'', ''Page''] cms_pages"
      and obj = action_obj and obj' = "action_obj\<lparr>inst_id := PInt 99\<rparr>" and mark_safe = "\<lambda>v. v"]
  by simp

text \<open>
  C8, as amended. Let the glossary entry \<^verbatim>\<open>'link'\<close> be a dictionary of type
  \<^verbatim>\<open>'cmspage'\<close>. If it lacks \<^verbatim>\<open>'model'\<close> or \<^verbatim>\<open>'pk'\<close>, \<^verbatim>\<open>get_link\<close> returns \<^verbatim>\<open>None\<close>,
  raises nothing, leaves the instance alone and makes no lookup. If both are there, the
  model class resolves and the lookup by primary key raises \<^verbatim>\<open>DoesNotExist\<close>, then on an
  instance that has no \<^verbatim>\<open>_link_model\<close> yet, or has \<^verbatim>\<open>None\<close> there, \<^verbatim>\<open>get_link\<close> returns
  \<^verbatim>\<open>None\<close> and raises nothing.
\<close>

theorem get_link_missing:
  "glossary obj ''link'' = Some (PDict link) \<Longrightarrow> dict_get link ''type'' = PStr ''cmspage'' \<Longrightarrow>
   (map_of link ''model'' = None \<or> map_of link ''pk'' = None
      \<longrightarrow> get_link get_model obj = (Inr PNone, obj, 0))
   \<and> (map_of link ''model'' = Some (PStr s) \<and> map_of link ''pk'' = Some pk \<and>
       get_model (split_str CHR ''.'' s) = Inr (Model objects_get) \<and>
       objects_get pk = Inl DoesNotExist \<and>
       (link_model obj = None \<or> link_model obj = Some PNone)
      \<longrightarrow> fst (get_link get_model obj) = Inr PNone)"
  by (auto simp add: get_link_def fetch_link_model_def)

theorem get_link_missing_witness:
  "get_link (get_model_in [''cms'', ''Page''] cms_pages) nopk_obj = (Inr PNone, nopk_obj, 0)
   \<and> fst (get_link (get_model_in [''cms'', ''Page''] no_rows) link_obj) = Inr PNone"
  using get_link_missing [where obj = nopk_obj
      and link = "[(''type'', PStr ''cmspage''), (''model'', PStr ''cms.Page'')]"
      and get_model = "get_model_in [''cms'', ''Page''] cms_pages"]
    get_link_missing [where obj = link_obj and link = page_link and s = "''cms.Page''"
      and pk = "PInt 7" and get_model = "get_model_in [''cms'', ''Page''] no_rows"
      and objects_get = no_rows]
  by (simp add: link_obj_def nopk_obj_def page_link_def dict_get_def get_model_in_def no_rows_def)

text \<open>
  C8 as stated fails on an instance that already carries a page in \<^verbatim>\<open>_link_model\<close>: a
  first call made while the page existed stores it; once the row is gone, the next call on
  the same instance still returns the page's URL, not \<^verbatim>\<open>None\<close>.
\<close>

theorem get_link_missing_counterexample:
  "glossary (link_obj\<lparr>link_model := Some about_page\<rparr>) ''link'' = Some (PDict page_link)
   \<and> dict_get page_link ''type'' = PStr ''cmspage''
   \<and> map_of page_link ''model'' = Some (PStr ''cms.Page'')
   \<and> map_of page_link ''pk'' = Some (PInt 7)
   \<and> get_model_in [''cms'', ''Page''] no_rows (split_str CHR ''.'' ''cms.Page'') = Inr (Model no_rows)
   \<and> no_rows (PInt 7) = Inl DoesNotExist
   \<and> fst (snd (get_link (get_model_in [''cms'', ''Page''] cms_pages) link_obj))
       = link_obj\<lparr>link_model := Some about_page\<rparr>
   \<and> fst (get_link (get_model_in [''cms'', ''Page''] no_rows) (link_obj\<lparr>link_model := Some about_page\<rparr>))
       = Inr (PStr ''/about/'')
   \<and> fst (get_link (get_model_in [''cms'', ''Page''] no_rows) (link_obj\<lparr>link_model := Some about_page\<rparr>))
       \<noteq> Inr PNone"
  by (simp add: get_link_def fetch_link_model_def link_obj_def page_link_def dict_get_def
      get_model_in_def cms_pages_def no_rows_def about_page_def)

lemma fetch_link_model_source:
  "fetch_link_model get_model link obj = (Inr obj', n) \<Longrightarrow>
     n = 1 \<and>
     (\<exists>m s pk objects_get.
        obj' = obj\<lparr>link_model := Some m\<rparr> \<and>
        map_of link ''model'' = Some (PStr s) \<and> map_of link ''pk'' = Some pk \<and>
        get_model (split_str CHR ''.'' s) = Inr (Model objects_get) \<and>
        (objects_get pk = Inr m \<or> objects_get pk = Inl DoesNotExist \<and> m = PNone))"
  by (auto simp add: fetch_link_model_def
      split: option.splits pyval.splits sum.splits exn.splits model_cls.splits)

lemma get_link_first_return:
  assumes l: "glossary obj ''link'' = Some (PDict link)" "dict_get link ''type'' = PStr ''cmspage''"
    "map_of link ''model'' \<noteq> None" "map_of link ''pk'' \<noteq> None"
    and r: "get_link get_model obj = (Inr v, obj1, n1)"
  shows "\<exists>m. obj1 = obj\<lparr>link_model := Some m\<rparr> \<and>
           Inr v = (if truthy m then get_absolute_url m else Inr PNone) \<and>
           (link_model obj = None \<and> n1 = 1 \<and>
              (\<exists>s pk objects_get.
                 map_of link ''model'' = Some (PStr s) \<and> map_of link ''pk'' = Some pk \<and>
                 get_model (split_str CHR ''.'' s) = Inr (Model objects_get) \<and>
                 (objects_get pk = Inr m \<or> objects_get pk = Inl DoesNotExist \<and> m = PNone))
            \<or> link_model obj = Some m \<and> n1 = 0)"
proof (cases "link_model obj")
  case (Some m)
  from get_link_cached [OF l Some, of get_model] r Some show ?thesis
    by (intro exI [of _ m]) auto
next
  case None
  show ?thesis
  proof (cases "fetch_link_model get_model link obj")
    case (Pair res n)
    show ?thesis
    proof (cases res)
      case (Inl e)
      with Pair r get_link_uncached [OF l None, of get_model] show ?thesis by simp
    next
      case (Inr obj')
      with Pair fetch_link_model_source [of get_model link obj obj' n]
      obtain m s pk objects_get where m: "n = 1" "obj' = obj\<lparr>link_model := Some m\<rparr>"
        "map_of link ''model'' = Some (PStr s)" "map_of link ''pk'' = Some pk"
        "get_model (split_str CHR ''.'' s) = Inr (Model objects_get)"
        "objects_get pk = Inr m \<or> objects_get pk = Inl DoesNotExist \<and> m = PNone"
        by blast
      from Pair Inr r get_link_uncached [OF l None, of get_model] m(1,2)
      have "Inr v = (if truthy m then get_absolute_url m else Inr PNone) \<and> obj1 = obj' \<and> n1 = 1"
        by (auto split: if_splits)
      with m None show ?thesis
        by (intro exI [of _ m]) blast
    qed
  qed
qed

text \<open>
  C9, as amended. Calling \<^verbatim>\<open>get_link\<close> again on the instance the first call left, against
  the same model registry and database, gives the same outcome. For a \<^verbatim>\<open>'cmspage'\<close> link
  carrying \<^verbatim>\<open>'model'\<close> and \<^verbatim>\<open>'pk'\<close>, when the first call returns a value: the instance
  it leaves differs from the one it got only in \<^verbatim>\<open>_link_model\<close>, which holds an object or
  \<^verbatim>\<open>None\<close> that decides the returned value; if the instance had no \<^verbatim>\<open>_link_model\<close>, the
  call made exactly one lookup and what it stored is the object the lookup returned, or
  \<^verbatim>\<open>None\<close> when the lookup raised \<^verbatim>\<open>DoesNotExist\<close>; if it had one, that one is kept and no
  lookup was made. The second call then returns the same value, changes nothing and makes
  no lookup, whatever the database holds by then.
\<close>

theorem get_link_idempotent:
  "fst (get_link get_model (fst (snd (get_link get_model obj)))) = fst (get_link get_model obj)
   \<and> (glossary obj ''link'' = Some (PDict link) \<and> dict_get link ''type'' = PStr ''cmspage'' \<and>
       map_of link ''model'' \<noteq> None \<and> map_of link ''pk'' \<noteq> None \<and>
       get_link get_model obj = (Inr v, obj1, n1)
       \<longrightarrow> n1 \<le> 1 \<and>
           (\<exists>m. obj1 = obj\<lparr>link_model := Some m\<rparr> \<and>
              Inr v = (if truthy m then get_absolute_url m else Inr PNone) \<and>
              (link_model obj = None \<and> n1 = 1 \<and>
                 (\<exists>s pk objects_get.
                    map_of link ''model'' = Some (PStr s) \<and> map_of link ''pk'' = Some pk \<and>
                    get_model (split_str CHR ''.'' s) = Inr (Model objects_get) \<and>
                    (objects_get pk = Inr m \<or> objects_get pk = Inl DoesNotExist \<and> m = PNone))
               \<or> link_model obj = Some m \<and> n1 = 0)) \<and>
           get_link get_model' obj1 = (Inr v, obj1, 0))"
proof (rule conjI)
  show "fst (get_link get_model (fst (snd (get_link get_model obj)))) = fst (get_link get_model obj)"
  proof (cases "\<exists>link. glossary obj ''link'' = Some (PDict link) \<and>
        dict_get link ''type'' = PStr ''cmspage'' \<and>
        map_of link ''model'' \<noteq> None \<and> map_of link ''pk'' \<noteq> None")
    case False
    from get_link_other [OF False, of get_model] show ?thesis by simp
  next
    case True
    then obtain link where l: "glossary obj ''link'' = Some (PDict link)"
      "dict_get link ''type'' = PStr ''cmspage''"
      "map_of link ''model'' \<noteq> None" "map_of link ''pk'' \<noteq> None" by blast
    obtain r obj1 n1 where r: "get_link get_model obj = (r, obj1, n1)"
      by (cases "get_link get_model obj") auto
    from get_link_returns_twice [OF l r] r show ?thesis by auto
  qed
next
  show "glossary obj ''link'' = Some (PDict link) \<and> dict_get link ''type'' = PStr ''cmspage'' \<and>
       map_of link ''model'' \<noteq> None \<and> map_of link ''pk'' \<noteq> None \<and>
       get_link get_model obj = (Inr v, obj1, n1)
       \<longrightarrow> n1 \<le> 1 \<and>
           (\<exists>m. obj1 = obj\<lparr>link_model := Some m\<rparr> \<and>
              Inr v = (if truthy m then get_absolute_url m else Inr PNone) \<and>
              (link_model obj = None \<and> n1 = 1 \<and>
                 (\<exists>s pk objects_get.
                    map_of link ''model'' = Some (PStr s) \<and> map_of link ''pk'' = Some pk \<and>
                    get_model (split_str CHR ''.'' s) = Inr (Model objects_get) \<and>
                    (objects_get pk = Inr m \<or> objects_get pk = Inl DoesNotExist \<and> m = PNone))
               \<or> link_model obj = Some m \<and> n1 = 0)) \<and>
           get_link get_model' obj1 = (Inr v, obj1, 0)"
  proof (rule impI)
    assume a: "glossary obj ''link'' = Some (PDict link) \<and>
       dict_get link ''type'' = PStr ''cmspage'' \<and>
       map_of link ''model'' \<noteq> None \<and> map_of link ''pk'' \<noteq> None \<and>
       get_link get_model obj = (Inr v, obj1, n1)"
    then have l: "glossary obj ''link'' = Some (PDict link)"
      "dict_get link ''type'' = PStr ''cmspage''"
      "map_of link ''model'' \<noteq> None" "map_of link ''pk'' \<noteq> None"
      and r: "get_link get_model obj = (Inr v, obj1, n1)" by simp_all
    from get_link_returns_twice [OF l r]
    have t: "n1 \<le> 1" "get_link get_model' obj1 = (Inr v, obj1, 0)" by auto
    from get_link_first_return [OF l r] t
    show "n1 \<le> 1 \<and>
           (\<exists>m. obj1 = obj\<lparr>link_model := Some m\<rparr> \<and>
              Inr v = (if truthy m then get_absolute_url m else Inr PNone) \<and>
              (link_model obj = None \<and> n1 = 1 \<and>
                 (\<exists>s pk objects_get.
                    map_of link ''model'' = Some (PStr s) \<and> map_of link ''pk'' = Some pk \<and>
                    get_model (split_str CHR ''.'' s) = Inr (Model objects_get) \<and>
                    (objects_get pk = Inr m \<or> objects_get pk = Inl DoesNotExist \<and> m = PNone))
               \<or> link_model obj = Some m \<and> n1 = 0)) \<and>
           get_link get_model' obj1 = (Inr v, obj1, 0)"
      by blast
  qed
qed

theorem get_link_idempotent_witness:
  "get_link (get_model_in [''cms'', ''Page''] cms_pages) link_obj =
     (Inr (PStr ''/about/''), link_obj\<lparr>link_model := Some about_page\<rparr>, 1)
   \<and> get_link (get_model_in [''cms'', ''Page''] no_rows) (link_obj\<lparr>link_model := Some about_page\<rparr>) =
     (Inr (PStr ''/about/''), link_obj\<lparr>link_model := Some about_page\<rparr>, 0)"
proof -
  have h: "glossary link_obj ''link'' = Some (PDict page_link) \<and>
      dict_get page_link ''type'' = PStr ''cmspage'' \<and>
      map_of page_link ''model'' \<noteq> None \<and> map_of page_link ''pk'' \<noteq> None \<and>
      get_link (get_model_in [''cms'', ''Page''] cms_pages) link_obj =
        (Inr (PStr ''/about/''), link_obj\<lparr>link_model := Some about_page\<rparr>, 1)"
    by (simp add: get_link_def fetch_link_model_def link_obj_def page_link_def dict_get_def
        get_model_in_def cms_pages_def about_page_def)
  from get_link_idempotent [where get_model' = "get_model_in [''cms'', ''Page''] no_rows",
      THEN conjunct2, THEN mp, OF h] h
  show ?thesis by simp
qed

text \<open>
  C9 as stated fails when the lookup raises anything but \<^verbatim>\<open>DoesNotExist\<close>: the handler
  at lines 57 and 58 does not catch it, nothing is stored on the instance, and the next call
  makes the lookup again. Two calls, two lookups.
\<close>

theorem get_link_idempotent_counterexample:
  "glossary link_obj ''link'' = Some (PDict page_link)
   \<and> dict_get page_link ''type'' = PStr ''cmspage''
   \<and> map_of page_link ''model'' = Some (PStr ''cms.Page'')
   \<and> map_of page_link ''pk'' = Some (PInt 7)
   \<and> get_link (get_model_in [''cms'', ''Page''] failing_rows) link_obj =
       (Inl (FrameworkError ''OperationalError''), link_obj, 1)
   \<and> link_model (fst (snd (get_link (get_model_in [''cms'', ''Page''] failing_rows) link_obj))) = None
   \<and> snd (snd (get_link (get_model_in [''cms'', ''Page''] failing_rows) link_obj))
       + snd (snd (get_link (get_model_in [''cms'', ''Page''] failing_rows)
                     (fst (snd (get_link (get_model_in [''cms'', ''Page''] failing_rows) link_obj)))))
       = 2"
  by (simp add: get_link_def fetch_link_model_def link_obj_def page_link_def dict_get_def
      get_model_in_def failing_rows_def)

section \<open>The catalog link form: cleaning and initial data\<close>

text \<open>
  What \<^verbatim>\<open>clean_product\<close> stores for a selected product whose primary key is true in a
  boolean context and for no product selected; with another link type the form is left
  as it is.
\<close>

lemma clean_product_link_data:
  "(cleaned_data self ''link_type'' = Some (PStr ''product'') \<and>
    cleaned_data self ''product'' = Some p \<and>
    (p = PNone \<and> pk = PNone \<or> p = PInstance label pk url \<and> truthy pk)
    \<longrightarrow> clean_product self =
          Inr (self\<lparr>cleaned_data := (cleaned_data self)(''link_data'' \<mapsto>
                 PDict [(''type'', PStr ''product''),
                        (''model'', PStr (app_label (ProductModel self) @ ''.'' @
                                          model_name (ProductModel self))),
                        (''pk'', pk)])\<rparr>))
   \<and> (cleaned_data self ''link_type'' \<noteq> Some (PStr ''product'') \<longrightarrow> clean_product self = Inr self)"
  by (auto simp add: clean_product_def split: option.splits)

text \<open>
  C6 at a selected product whose primary key is \<open>0\<close>: \<^verbatim>\<open>p and p.pk or None\<close> takes
  \<^verbatim>\<open>None\<close> because \<open>0\<close> is false, so \<^verbatim>\<open>link_data['pk']\<close> is \<^verbatim>\<open>None\<close> and not the product's
  primary key.
\<close>

theorem clean_product_pk_zero:
  "cleaned_data zero_form ''link_type'' = Some (PStr ''product'')
   \<and> cleaned_data zero_form ''product'' = Some product_zero
   \<and> getattr_pk product_zero = Inr (PInt 0)
   \<and> clean_product zero_form =
       Inr (zero_form\<lparr>cleaned_data := (cleaned_data zero_form)(''link_data'' \<mapsto>
              PDict [(''type'', PStr ''product''), (''model'', PStr ''myshop.Product''),
                     (''pk'', PNone)])\<rparr>)"
  by (simp add: clean_product_def zero_form_def product_zero_def)

text \<open>
  C10, as amended. If \<^verbatim>\<open>initial['link']\<close> is a dictionary whose \<^verbatim>\<open>'model'\<close> is a path that
  resolves to a model class and whose \<^verbatim>\<open>'pk'\<close> names an existing object, the object is
  stored under \<^verbatim>\<open>'product'\<close> and nothing else changes. The call returns with \<^verbatim>\<open>initial\<close>
  unchanged when \<^verbatim>\<open>'link'\<close> is missing, when \<^verbatim>\<open>'model'\<close> is missing, when the model class
  resolves and \<^verbatim>\<open>'pk'\<close> is missing, and when the model class resolves and the object does
  not exist.
\<close>

theorem set_initial_product_sets:
  "(initial ''link'' = Some (PDict link) \<and> map_of link ''model'' = Some (PStr s) \<and>
    map_of link ''pk'' = Some pk \<and> get_model (split_str CHR ''.'' s) = Inr (Model objects_get) \<and>
    objects_get pk = Inr m
    \<longrightarrow> set_initial_product get_model initial = Inr (initial(''product'' \<mapsto> m)))
   \<and> (initial ''link'' = None \<longrightarrow> set_initial_product get_model initial = Inr initial)
   \<and> (initial ''link'' = Some (PDict link) \<and> map_of link ''model'' = None
        \<longrightarrow> set_initial_product get_model initial = Inr initial)
   \<and> (initial ''link'' = Some (PDict link) \<and> map_of link ''model'' = Some (PStr s) \<and>
       get_model (split_str CHR ''.'' s) = Inr (Model objects_get) \<and> map_of link ''pk'' = None
        \<longrightarrow> set_initial_product get_model initial = Inr initial)
   \<and> (initial ''link'' = Some (PDict link) \<and> map_of link ''model'' = Some (PStr s) \<and>
       map_of link ''pk'' = Some pk \<and> get_model (split_str CHR ''.'' s) = Inr (Model objects_get) \<and>
       objects_get pk = Inl DoesNotExist
        \<longrightarrow> set_initial_product get_model initial = Inr initial)"
  by (simp add: set_initial_product_def set_initial_product_try_def)

theorem set_initial_product_sets_witness:
  "set_initial_product (get_model_in [''myshop'', ''Product''] shop_products)
       [''link'' \<mapsto> PDict product_link]
     = Inr ([''link'' \<mapsto> PDict product_link, ''product'' \<mapsto> product_three])
   \<and> set_initial_product (get_model_in [''myshop'', ''Product''] shop_products) Map.empty
     = Inr Map.empty
   \<and> set_initial_product (get_model_in [''myshop'', ''Product''] no_rows)
       [''link'' \<mapsto> PDict product_link]
     = Inr ([''link'' \<mapsto> PDict product_link])"
  using set_initial_product_sets [where initial = "[''link'' \<mapsto> PDict product_link]"
      and link = product_link and s = "''myshop.Product''" and pk = "PInt 3"
      and get_model = "get_model_in [''myshop'', ''Product''] shop_products"
      and objects_get = shop_products and m = product_three]
    set_initial_product_sets [where initial = Map.empty
      and get_model = "get_model_in [''myshop'', ''Product''] shop_products"]
    set_initial_product_sets [where initial = "[''link'' \<mapsto> PDict product_link]"
      and link = product_link and s = "''myshop.Product''" and pk = "PInt 3"
      and get_model = "get_model_in [''myshop'', ''Product''] no_rows"
      and objects_get = no_rows]
  by (simp add: product_link_def get_model_in_def shop_products_def no_rows_def)

text \<open>
  C10 as stated fails when \<^verbatim>\<open>'pk'\<close> is missing and the model path does not resolve:
  \<^verbatim>\<open>get_model\<close> is called before \<^verbatim>\<open>initial['link']['pk']\<close> is read, and what it raises (or
  the \<^verbatim>\<open>AttributeError\<close> on the \<^verbatim>\<open>None\<close> it returns) is neither \<^verbatim>\<open>KeyError\<close> nor
  \<^verbatim>\<open>ObjectDoesNotExist\<close>, so it escapes.
\<close>

theorem set_initial_product_counterexample:
  "[''link'' \<mapsto> PDict gone_link] ''link'' = Some (PDict gone_link)
   \<and> map_of gone_link ''model'' = Some (PStr ''myshop.Gone'')
   \<and> map_of gone_link ''pk'' = None
   \<and> set_initial_product (get_model_in [''myshop'', ''Product''] shop_products)
        [''link'' \<mapsto> PDict gone_link]
      = Inl (FrameworkError ''LookupError'')
   \<and> set_initial_product (\<lambda>parts. Inr NoModel) [''link'' \<mapsto> PDict gone_link]
      = Inl (AttributeError ''objects'')"
  by (simp add: set_initial_product_def set_initial_product_try_def get_model_in_def gone_link_def)

section \<open>Dialog form plugins: construction, templates and rendering\<close>

text \<open>
  C3. A plugin object that \<^verbatim>\<open>__init__\<close> has built carries as \<^verbatim>\<open>FormClass\<close> the class that
  \<^verbatim>\<open>import_by_path\<close> gave for the path \<^verbatim>\<open>get_form_class()\<close> returns. With a request in
  the context, \<^verbatim>\<open>render\<close> calls that class with keyword arguments that agree with what
  \<^verbatim>\<open>get_form_data(request)\<close> returned on every key other than \<^verbatim>\<open>'initial'\<close>; an exception
  of the constructor propagates, and otherwise the form is stored in the context under its
  \<^verbatim>\<open>form_name\<close>, every other entry kept, before the \<^verbatim>\<open>render\<close> of the superclass takes
  over.
\<close>

theorem render_binds_form:
  "dialog_plugin_init import_by_path cls = Inr self \<Longrightarrow> context ''request'' = Some CRequest \<Longrightarrow>
   \<exists>c kw request'.
     import_by_path (get_form_class cls) = Inr c \<and> klass self = cls \<and> FormClass self = c
     \<and> (\<forall>k. k \<noteq> ''initial'' \<longrightarrow> kw k = get_form_data cls request k)
     \<and> (\<forall>e. c kw = Inl e \<longrightarrow>
          fst (render self super_render (request, context) instance placeholder) = Inl e)
     \<and> (\<forall>b. c kw = Inr b \<longrightarrow>
          render self super_render (request, context) instance placeholder =
            super_render (request', context(form_name b \<mapsto> CForm b)) instance placeholder)"
proof -
  assume i: "dialog_plugin_init import_by_path cls = Inr self"
    and q: "context ''request'' = Some CRequest"
  from i obtain c where c: "import_by_path (get_form_class cls) = Inr c"
    "self = \<lparr>klass = cls, FormClass = c\<rparr>"
    by (auto simp add: dialog_plugin_init_def split: sum.splits)
  define order where "order = (case plugin_order request of None \<Rightarrow> 0 | Some n \<Rightarrow> n) + 1"
  define fd where "fd = get_form_data cls request"
  define kw where "kw = fd(''initial'' \<mapsto> PDict
      (AList.update ''plugin_order'' (PInt order)
        (AList.update ''plugin_id'' (inst_id instance)
          (case fd ''initial'' of Some (PDict d) \<Rightarrow> d | _ \<Rightarrow> []))))"
  have r: "render self super_render (request, context) instance placeholder =
      (case c kw of
         Inl e \<Rightarrow> (Inl e, request\<lparr>plugin_order := Some order\<rparr>, context)
       | Inr b \<Rightarrow> super_render (request\<lparr>plugin_order := Some order\<rparr>,
                    context(form_name b \<mapsto> CForm b)) instance placeholder)"
    unfolding kw_def fd_def order_def using q c(2) by (simp add: render_def Let_def)
  have k: "\<forall>k. k \<noteq> ''initial'' \<longrightarrow> kw k = get_form_data cls request k"
    by (simp add: kw_def fd_def)
  show ?thesis
    apply (rule exI [of _ c], rule exI [of _ kw],
        rule exI [of _ "request\<lparr>plugin_order := Some order\<rparr>"])
    using c k r by simp
qed

theorem render_binds_form_witness:
  "dialog_plugin_init import_shop_forms CustomerFormPlugin = Inr customer_plugin
   \<and> [''request'' \<mapsto> CRequest :: customer_form ctxval] ''request'' = Some CRequest
   \<and> (\<exists>c kw request'.
        import_shop_forms (get_form_class CustomerFormPlugin) = Inr c
        \<and> klass customer_plugin = CustomerFormPlugin \<and> FormClass customer_plugin = c
        \<and> (\<forall>k. k \<noteq> ''initial'' \<longrightarrow>
              kw k = get_form_data CustomerFormPlugin \<lparr>plugin_order = None\<rparr> k)
        \<and> (\<forall>e. c kw = Inl e \<longrightarrow>
              fst (render customer_plugin cms_render
                     (\<lparr>plugin_order = None\<rparr>, [''request'' \<mapsto> CRequest]) link_obj ()) = Inl e)
        \<and> (\<forall>b. c kw = Inr b \<longrightarrow>
              render customer_plugin cms_render
                (\<lparr>plugin_order = None\<rparr>, [''request'' \<mapsto> CRequest]) link_obj () =
              cms_render (request', [''request'' \<mapsto> CRequest, form_name b \<mapsto> CForm b])
                link_obj ()))"
proof -
  have i: "dialog_plugin_init import_shop_forms CustomerFormPlugin = Inr customer_plugin"
    by (simp add: dialog_plugin_init_def import_shop_forms_def get_form_class_def
        CustomerFormPlugin_def customer_plugin_def)
  have q: "[''request'' \<mapsto> CRequest :: customer_form ctxval] ''request'' = Some CRequest"
    by simp
  from render_binds_form [of import_shop_forms CustomerFormPlugin customer_plugin
      "[''request'' \<mapsto> CRequest]" "\<lparr>plugin_order = None\<rparr>" cms_render link_obj "()",
      OF i q] i q
  show ?thesis by simp
qed

text \<open>
  C4. With a request in the context, \<^verbatim>\<open>render\<close> sets the request's \<^verbatim>\<open>_plugin_order\<close> to
  one more than it was, \<open>0\<close> standing for an absent attribute, whether or not the form can be
  built. The form is built with an \<^verbatim>\<open>'initial'\<close> that is a dictionary holding the
  instance's \<^verbatim>\<open>id\<close> under \<^verbatim>\<open>'plugin_id'\<close> and the new counter under \<^verbatim>\<open>'plugin_order'\<close>,
  whatever \<^verbatim>\<open>get_form_data\<close> had put under these keys, and holding every other entry of the
  \<^verbatim>\<open>'initial'\<close> that \<^verbatim>\<open>get_form_data\<close> supplied.
\<close>

theorem render_plugin_order:
  "context ''request'' = Some CRequest \<Longrightarrow>
   \<exists>kw init request'.
     plugin_order request' = Some ((case plugin_order request of None \<Rightarrow> 0 | Some n \<Rightarrow> n) + 1)
     \<and> kw ''initial'' = Some (PDict init)
     \<and> map_of init ''plugin_id'' = Some (inst_id instance)
     \<and> map_of init ''plugin_order'' =
         Some (PInt ((case plugin_order request of None \<Rightarrow> 0 | Some n \<Rightarrow> n) + 1))
     \<and> (\<forall>d k. get_form_data (klass self) request ''initial'' = Some (PDict d) \<and>
               k \<noteq> ''plugin_id'' \<and> k \<noteq> ''plugin_order'' \<longrightarrow> map_of init k = map_of d k)
     \<and> render self super_render (request, context) instance placeholder =
         (case FormClass self kw of
            Inl e \<Rightarrow> (Inl e, request', context)
          | Inr b \<Rightarrow> super_render (request', context(form_name b \<mapsto> CForm b))
                      instance placeholder)"
proof -
  assume q: "context ''request'' = Some CRequest"
  define order where "order = (case plugin_order request of None \<Rightarrow> 0 | Some n \<Rightarrow> n) + 1"
  define fd where "fd = get_form_data (klass self) request"
  define init where "init = AList.update ''plugin_order'' (PInt order)
        (AList.update ''plugin_id'' (inst_id instance)
          (case fd ''initial'' of Some (PDict d) \<Rightarrow> d | _ \<Rightarrow> []))"
  define kw where "kw = fd(''initial'' \<mapsto> PDict init)"
  have r: "render self super_render (request, context) instance placeholder =
      (case FormClass self kw of
         Inl e \<Rightarrow> (Inl e, request\<lparr>plugin_order := Some order\<rparr>, context)
       | Inr b \<Rightarrow> super_render (request\<lparr>plugin_order := Some order\<rparr>,
                    context(form_name b \<mapsto> CForm b)) instance placeholder)"
    unfolding kw_def init_def fd_def order_def using q by (simp add: render_def Let_def)
  have a: "map_of init ''plugin_id'' = Some (inst_id instance)"
    "map_of init ''plugin_order'' = Some (PInt order)"
    by (simp_all add: init_def update_conv')
  have o: "\<forall>d k. fd ''initial'' = Some (PDict d) \<and>
               k \<noteq> ''plugin_id'' \<and> k \<noteq> ''plugin_order'' \<longrightarrow> map_of init k = map_of d k"
    by (simp add: init_def update_conv')
  show ?thesis
    apply (rule exI [of _ kw], rule exI [of _ init],
        rule exI [of _ "request\<lparr>plugin_order := Some order\<rparr>"])
    using r a o by (simp add: order_def kw_def fd_def)
qed

theorem render_plugin_order_witness:
  "[''request'' \<mapsto> CRequest :: customer_form ctxval] ''request'' = Some CRequest
   \<and> (\<exists>kw init request'.
        plugin_order request' = Some 3
        \<and> kw ''initial'' = Some (PDict init)
        \<and> map_of init ''plugin_id'' = Some (PInt 1)
        \<and> map_of init ''plugin_order'' = Some (PInt 3)
        \<and> map_of init ''email'' = Some (PStr ''a@b.c'')
        \<and> render customer_plugin cms_render
             (\<lparr>plugin_order = Some 2\<rparr>, [''request'' \<mapsto> CRequest]) link_obj () =
           (case CustomerForm kw of
              Inl e \<Rightarrow> (Inl e, request', [''request'' \<mapsto> CRequest])
            | Inr b \<Rightarrow> cms_render (request', [''request'' \<mapsto> CRequest, form_name b \<mapsto> CForm b])
                        link_obj ()))
   \<and> fst (snd (render customer_plugin cms_render
                  (\<lparr>plugin_order = None\<rparr>, [''request'' \<mapsto> CRequest]) link_obj ()))
       = \<lparr>plugin_order = Some 1\<rparr>"
proof -
  have q: "[''request'' \<mapsto> CRequest :: customer_form ctxval] ''request'' = Some CRequest"
    by simp
  have g: "get_form_data (klass customer_plugin) \<lparr>plugin_order = Some 2\<rparr> ''initial'' =
      Some (PDict [(''plugin_id'', PInt 999), (''email'', PStr ''a@b.c'')])"
    by (simp add: customer_plugin_def CustomerFormPlugin_def)
  have e: "fst (snd (render customer_plugin cms_render
                  (\<lparr>plugin_order = None\<rparr>, [''request'' \<mapsto> CRequest]) link_obj ()))
       = \<lparr>plugin_order = Some 1\<rparr>"
    by (simp add: render_def Let_def customer_plugin_def CustomerFormPlugin_def CustomerForm_def
        cms_render_def)
  from render_plugin_order [of "[''request'' \<mapsto> CRequest]" "\<lparr>plugin_order = Some 2\<rparr>"
      link_obj customer_plugin cms_render "()", OF q]
  obtain kw init request' where w:
    "plugin_order request' = Some 3" "kw ''initial'' = Some (PDict init)"
    "map_of init ''plugin_id'' = Some (inst_id link_obj)"
    "map_of init ''plugin_order'' = Some (PInt 3)"
    "\<forall>d k. get_form_data (klass customer_plugin) \<lparr>plugin_order = Some 2\<rparr> ''initial'' = Some (PDict d) \<and>
               k \<noteq> ''plugin_id'' \<and> k \<noteq> ''plugin_order'' \<longrightarrow> map_of init k = map_of d k"
    "render customer_plugin cms_render
             (\<lparr>plugin_order = Some 2\<rparr>, [''request'' \<mapsto> CRequest]) link_obj () =
           (case FormClass customer_plugin kw of
              Inl e \<Rightarrow> (Inl e, request', [''request'' \<mapsto> CRequest])
            | Inr b \<Rightarrow> cms_render (request', [''request'' \<mapsto> CRequest, form_name b \<mapsto> CForm b])
                        link_obj ())"
    by auto
  from w(5) g have m: "map_of init ''email'' = Some (PStr ''a@b.c'')"
    by simp
  have f: "FormClass customer_plugin = CustomerForm" by (simp add: customer_plugin_def)
  have i: "inst_id link_obj = PInt 1" by (simp add: link_obj_def)
  from w m f i have "\<exists>kw init request'.
        plugin_order request' = Some 3
        \<and> kw ''initial'' = Some (PDict init)
        \<and> map_of init ''plugin_id'' = Some (PInt 1)
        \<and> map_of init ''plugin_order'' = Some (PInt 3)
        \<and> map_of init ''email'' = Some (PStr ''a@b.c'')
        \<and> render customer_plugin cms_render
             (\<lparr>plugin_order = Some 2\<rparr>, [''request'' \<mapsto> CRequest]) link_obj () =
           (case CustomerForm kw of
              Inl e \<Rightarrow> (Inl e, request', [''request'' \<mapsto> CRequest])
            | Inr b \<Rightarrow> cms_render (request', [''request'' \<mapsto> CRequest, form_name b \<mapsto> CForm b])
                        link_obj ())"
    by (intro exI [of _ kw] exI [of _ init] exI [of _ request']) simp
  with q e show ?thesis by blast
qed

text \<open>
  C5. \<^verbatim>\<open>get_render_template\<close> hands \<^verbatim>\<open>select_template\<close> exactly two names, in this
  order: the one under the shop's \<^verbatim>\<open>APP_LABEL\<close>, then the one under \<^verbatim>\<open>shop\<close>. With a
  loader that takes the first name that loads, the result is the template of the first
  name when it loads, else that of the second when it loads, else an error.
\<close>

theorem get_render_template_candidates:
  "get_render_template select_template APP_LABEL self context instance placeholder =
     select_template
       [APP_LABEL @ ''/checkout/'' @ template_leaf_name (klass self),
        ''shop/checkout/'' @ template_leaf_name (klass self)]
   \<and> get_render_template (first_template store) APP_LABEL self context instance placeholder =
       (case store (APP_LABEL @ ''/checkout/'' @ template_leaf_name (klass self)) of
          Some t \<Rightarrow> Inr t
        | None \<Rightarrow>
            (case store (''shop/checkout/'' @ template_leaf_name (klass self)) of
               Some t \<Rightarrow> Inr t
             | None \<Rightarrow> Inl (FrameworkError ''TemplateDoesNotExist'')))"
  by (simp add: get_render_template_def split: option.splits)

theorem get_render_template_candidates_witness:
  "get_render_template
       (first_template [''shop/checkout/customer.html'' \<mapsto> ''default'',
                        ''myshop/checkout/customer.html'' \<mapsto> ''custom''])
       ''myshop'' customer_plugin () () () = Inr ''custom''
   \<and> get_render_template (first_template [''shop/checkout/customer.html'' \<mapsto> ''default''])
       ''myshop'' customer_plugin () () () = Inr ''default''"
  using get_render_template_candidates [of _ "''myshop''" customer_plugin "()" "()" "()"
      "[''shop/checkout/customer.html'' \<mapsto> ''default'',
        ''myshop/checkout/customer.html'' \<mapsto> ''custom'']", THEN conjunct2]
    get_render_template_candidates [of _ "''myshop''" customer_plugin "()" "()" "()"
      "[''shop/checkout/customer.html'' \<mapsto> ''default'']", THEN conjunct2]
  by (simp add: customer_plugin_def CustomerFormPlugin_def)

end
